theory Spec2Isabelle
  imports Complex_Main
begin

section \<open>Python values shared by both modules\<close>

subsection \<open>Exceptions\<close>

text \<open>
  The exceptions that the modelled calls raise. \<open>ParserError\<close> and \<open>EmptyDataError\<close> are
  the pandas errors of \<open>pandas.errors\<close>; both are subclasses of \<open>ValueError\<close>.
  \<open>KeyboardInterrupt\<close> derives from \<open>BaseException\<close> only. \<open>ConfigurationError\<close> and
  \<open>NoEligibleRunError\<close> are the error kinds named by the specification; no line of the
  source raises them.
\<close>

datatype exn =
    Exception string
  | ValueError string
  | ParserError string
  | EmptyDataError string
  | FileNotFoundError string
  | KeyError string
  | TypeError string
  | IndexError string
  | MlflowException string
  | KeyboardInterrupt
  | ConfigurationError
  | NoEligibleRunError

fun isinstance_ValueError :: "exn \<Rightarrow> bool" where
  "isinstance_ValueError (ValueError m) = True"
| "isinstance_ValueError (ParserError m) = True"
| "isinstance_ValueError (EmptyDataError m) = True"
| "isinstance_ValueError e = False"

fun isinstance_Exception :: "exn \<Rightarrow> bool" where
  "isinstance_Exception KeyboardInterrupt = False"
| "isinstance_Exception e = True"

fun str :: "exn \<Rightarrow> string" where
  "str (Exception m) = m"
| "str (ValueError m) = m"
| "str (ParserError m) = m"
| "str (EmptyDataError m) = m"
| "str (FileNotFoundError m) = m"
| "str (KeyError m) = m"
| "str (TypeError m) = m"
| "str (IndexError m) = m"
| "str (MlflowException m) = m"
| "str KeyboardInterrupt = []"
| "str ConfigurationError = []"
| "str NoEligibleRunError = []"

subsection \<open>Data frames\<close>

text \<open>
  A pandas \<open>DataFrame\<close>: the row labels (\<open>index\<close>) and, column by column, the column name
  with the values of that column in row order.
\<close>

record ('k, 'c) frame =
  index :: "nat list"
  data :: "('k \<times> 'c list) list"

definition columns :: "('k, 'c) frame \<Rightarrow> 'k list" where
  "columns df = map fst (data df)"

text \<open>The cells of a frame of data, typed as pandas types them; \<open>NaN\<close> is a missing
  value.\<close>

datatype scalar = NaN | BoolCell bool | IntCell int | FloatCell real | StrCell string

text \<open>The cells of the frame of runs under a parameter column: the logged string, or
  \<open>None\<close> where the run has not logged the parameter.\<close>

type_synonym cell = "string option"

datatype pandas =
    DataFrame "(string, scalar) frame"
  | Series string "nat list" "scalar list"

text \<open>\<open>select_columns d cs\<close> picks the columns \<open>cs\<close>, in the order of \<open>cs\<close>; \<open>None\<close> when
  one of them is not a column of \<open>d\<close> (pandas raises \<open>KeyError\<close> there).\<close>

fun select_columns :: "('k \<times> 'c list) list \<Rightarrow> 'k list \<Rightarrow> ('k \<times> 'c list) list option" where
  "select_columns d [] = Some []"
| "select_columns d (c # cs) =
     (case map_of d c of
        None \<Rightarrow> None
      | Some v \<Rightarrow> map_option ((#) (c, v)) (select_columns d cs))"

section \<open>The dataset loader: \<open>data/data_load.py\<close>\<close>

subsection \<open>Configuration, files and effects\<close>

text \<open>A value of the configuration mapping returned by \<open>load_config_file()\<close>: a string
  (a file name, the model name) or a list of strings (the columns to keep).\<close>

datatype cfg = CStr string | CList "string list"

text \<open>
  What \<open>pd.read_csv\<close> finds at a path: no file, a file it cannot parse, a file without
  columns, or a table. How pandas parses a table (the typing of the columns, missing
  values, blank lines, an index column) is pandas' own and is not modelled: a table is
  given by the frame that \<open>pd.read_csv\<close> returns for it, with one row per record that
  pandas reads, in file order.
\<close>

datatype csv_file = NoFile | Malformed | NoColumns | Table "(string, scalar) frame"

text \<open>
  The surroundings of \<open>load_data\<close>: \<open>config\<close> is the mapping that \<open>load_config_file()\<close>
  returns (a key that is absent or null gives \<open>None\<close> under \<open>.get\<close>), \<open>root\<close> is the
  directory three levels above \<open>data_load.py\<close>, \<open>files\<close> is the file system.
\<close>

record env =
  config :: "string \<Rightarrow> cfg option"
  root :: string
  files :: "string \<Rightarrow> csv_file"

text \<open>The effects of a call, in the order they happen.\<close>

datatype event =
    LogInfo string
  | LogError string
  | LoadConfig
  | ReadCsv string

subsection \<open>\<open>os.path.join\<close> (POSIX)\<close>

definition join2 :: "string \<Rightarrow> string \<Rightarrow> string" where
  "join2 path b =
     (if b \<noteq> [] \<and> hd b = CHR ''/'' then b
      else if path = [] \<or> last path = CHR ''/'' then path @ b
      else path @ ''/'' @ b)"

definition os_path_join :: "string \<Rightarrow> string list \<Rightarrow> string" where
  "os_path_join a p = foldl join2 a p"

subsection \<open>\<open>pd.read_csv\<close> and column selection\<close>

definition read_csv :: "env \<Rightarrow> string \<Rightarrow> exn + (string, scalar) frame" where
  "read_csv env p =
     (case files env p of
        NoFile \<Rightarrow> Inl (FileNotFoundError p)
      | Malformed \<Rightarrow> Inl (ParserError ''Error tokenizing data'')
      | NoColumns \<Rightarrow> Inl (EmptyDataError ''No columns to parse from file'')
      | Table loaded \<Rightarrow> Inr loaded)"

text \<open>\<open>loaded_data[key]\<close>: a list of names selects a frame of exactly those columns, a single
  name selects that column as a series, and \<open>None\<close> is no column.\<close>

definition getitem :: "(string, scalar) frame \<Rightarrow> cfg option \<Rightarrow> exn + pandas" where
  "getitem df key =
     (case key of
        None \<Rightarrow> Inl (KeyError ''None'')
      | Some (CStr c) \<Rightarrow>
          (case map_of (data df) c of
             None \<Rightarrow> Inl (KeyError c)
           | Some v \<Rightarrow> Inr (Series c (index df) v))
      | Some (CList cs) \<Rightarrow>
          (case select_columns (data df) cs of
             None \<Rightarrow> Inl (KeyError ''not in index'')
           | Some d \<Rightarrow> Inr (DataFrame \<lparr>index = index df, data = d\<rparr>)))"

subsection \<open>\<open>DataLoad.load_data\<close>\<close>

text \<open>The body of the \<open>try\<close> block (lines 34 to 43), with the effects it performs up to the
  point where it returns or raises.\<close>

definition load_data_try :: "env \<Rightarrow> string \<Rightarrow> (exn + pandas) \<times> event list" where
  "load_data_try env dataset_name =
     (case config env dataset_name of
        None \<Rightarrow>
          (Inl (ValueError (''Erro: O nome do dataset fornecido '' @ [CHR 0xC3, CHR 0xA9]
                            @ '' incorreto: None'')),
           [LoadConfig])
      | Some (CList l) \<Rightarrow>
          (Inl (TypeError ''expected str, bytes or os.PathLike object, not list''),
           [LoadConfig])
      | Some (CStr dataset) \<Rightarrow>
          (let dataset_path = os_path_join (root env) [''data'', ''raw'', dataset]
           in case read_csv env dataset_path of
                Inl e \<Rightarrow> (Inl e, [LoadConfig, ReadCsv dataset_path])
              | Inr loaded_data \<Rightarrow>
                  (getitem loaded_data (config env ''columns_to_use''),
                   [LoadConfig, ReadCsv dataset_path, LoadConfig])))"

text \<open>The whole method: the first handler takes every \<open>ValueError\<close>, the second every other
  \<open>Exception\<close>; both log and fall off the end of the function, which returns \<open>None\<close>.\<close>

definition load_data :: "env \<Rightarrow> string \<Rightarrow> (exn + pandas option) \<times> event list" where
  "load_data env dataset_name =
     (let started = [LogInfo (''Come'' @ [CHR 0xC3, CHR 0xA7]
                              @ ''ando a carga dos dados com o nome '' @ dataset_name)]
      in case load_data_try env dataset_name of
           (Inr loaded, evs) \<Rightarrow> (Inr (Some loaded), started @ evs)
         | (Inl e, evs) \<Rightarrow>
             if isinstance_ValueError e
             then (Inr None, started @ evs @ [LogError (str e)])
             else if isinstance_Exception e
             then (Inr None, started @ evs @ [LogError (''Erro inesperado: '' @ str e)])
             else (Inl e, started @ evs))"

text \<open>A small project used in the examples: one data set \<open>loan\<close> in \<open>loan.csv\<close> with three
  columns and two records, of which two columns are kept.\<close>

definition loan_csv :: "(string, scalar) frame" where
  "loan_csv =
     \<lparr>index = [0, 1],
      data = [(''id'', [IntCell 1, IntCell 2]),
              (''income'', [NaN, FloatCell 1200]),
              (''default'', [IntCell 0, IntCell 1])]\<rparr>"

definition example_env :: env where
  "example_env =
     \<lparr>config = map_of [(''loan'', CStr ''loan.csv''),
                       (''columns_to_use'', CList [''income'', ''default'']),
                       (''model_name'', CStr ''prob_loan_model'')],
      root = ''/srv/projeto'',
      files = (\<lambda>p. if p = ''/srv/projeto/data/raw/loan.csv''
                    then Table loan_csv else NoFile)\<rparr>"

section \<open>The trainer: \<open>train/train.py\<close>\<close>

subsection \<open>Errors as values\<close>

definition then_do :: "exn + 'a \<Rightarrow> ('a \<Rightarrow> exn + 'b) \<Rightarrow> exn + 'b" where
  "then_do m f = (case m of Inl e \<Rightarrow> Inl e | Inr x \<Rightarrow> f x)"

subsection \<open>Python objects, the pipeline and the libraries\<close>

text \<open>The Python values the trainer handles. \<open>PyObject c kw\<close> is the instance made by
  calling the class \<open>c\<close> with the keyword arguments \<open>kw\<close>.\<close>

datatype pyobj =
    PyNone
  | PyBool bool
  | PyInt int
  | PyFloat real
  | PyStr string
  | PyObject string "(string \<times> pyobj) list"

text \<open>The steps of a \<open>Pipeline\<close>, and a pipeline after \<open>fit\<close>: the steps with the data they
  were fitted on. The classifier is the last step and is fitted in place with the
  pipeline.\<close>

type_synonym pipeline = "(string \<times> pyobj) list"

record fitted =
  steps :: pipeline
  fit_X :: "(string, scalar) frame"
  fit_y :: "(string, scalar) frame"

subsection \<open>\<open>TrainModels\<close> and the scope of \<open>run\<close>\<close>

record trainer =
  dados_X :: "(string, scalar) frame"
  dados_y :: "(string, scalar) frame"
  model_name :: string

text \<open>The constructor reads the model name from the configuration. The trainer is
  modelled for a configuration that has one, a string.\<close>

definition TrainModels ::
  "env \<Rightarrow> (string, scalar) frame \<Rightarrow> (string, scalar) frame \<Rightarrow> trainer option" where
  "TrainModels env X y =
     (case config env ''model_name'' of
        Some (CStr n) \<Rightarrow> Some \<lparr>dados_X = X, dados_y = y, model_name = n\<rparr>
      | _ \<Rightarrow> None)"

text \<open>
  The local variables of \<open>run\<close> that an expression evaluated inside it can read: \<open>self\<close>,
  the metric and the frame returned by \<open>get_best_model\<close> (line 96), and, once line 102
  has bound it, the classifier.
\<close>

record scope =
  local_self :: trainer
  local_metric :: "real option"
  local_df_best_params :: "(string, cell) frame"
  local_model :: "pyobj option"

subsection \<open>The libraries\<close>

text \<open>
  What the trainer calls and this development does not look into:
  \<^item> \<open>eval\<close> of a string. The call has one argument, so the expression is evaluated in
    the scope of \<open>run\<close> and its value may depend on the local variables; effects of
    the evaluation other than its value or exception are not modelled.
  \<^item> \<open>int\<close> and \<open>float\<close> of a string.
  \<^item> The order in which the sort of numpy, which is not stable, leaves equal values:
    \<open>tie_order ks i\<close> is the rank, among equal values, of position \<open>i\<close> of the array
    \<open>ks\<close>.
  \<^item> \<open>Pipeline.fit\<close> (the error it raises, if any), and \<open>predict_proba\<close> and
    \<open>predict_log_proba\<close> of a fitted pipeline (one row per row of the data, with the
    probability of each class and with its logarithm).
  \<^item> \<open>ModelEvaluation(model, X, y).evaluate_predictions(y_true, y_preds)\<close> of
    \<open>evaluation/classifier_eval.py\<close>.
\<close>

record py =
  py_eval :: "scope \<Rightarrow> string \<Rightarrow> exn + pyobj"
  py_int :: "string \<Rightarrow> exn + int"
  py_float :: "string \<Rightarrow> exn + real"
  tie_order :: "real list \<Rightarrow> nat \<Rightarrow> nat"
  fit :: "pipeline \<Rightarrow> (string, scalar) frame \<Rightarrow> (string, scalar) frame \<Rightarrow> exn option"
  predict_proba :: "fitted \<Rightarrow> (string, scalar) frame \<Rightarrow> exn + real list list"
  predict_log_proba :: "fitted \<Rightarrow> (string, scalar) frame \<Rightarrow> exn + real list list"
  evaluate_predictions ::
    "fitted \<Rightarrow> (string, scalar) frame \<Rightarrow> real list \<Rightarrow> exn + real"

text \<open>\<open>a[:, 1]\<close>: the second column of a matrix given by its rows.\<close>

definition column_1 :: "real list list \<Rightarrow> exn + real list" where
  "column_1 a =
     (if list_all (\<lambda>r. 1 < length r) a then Inr (map (\<lambda>r. r ! 1) a)
      else Inl (IndexError ''index 1 is out of bounds for axis 1''))"

text \<open>\<open>df[c].values[0]\<close> and \<open>df.iloc[[0]]\<close>.\<close>

definition values_0 :: "(string, 'c) frame \<Rightarrow> string \<Rightarrow> exn + 'c" where
  "values_0 df c =
     (case map_of (data df) c of
        None \<Rightarrow> Inl (KeyError c)
      | Some [] \<Rightarrow> Inl (IndexError ''index 0 is out of bounds for axis 0 with size 0'')
      | Some (v # vs) \<Rightarrow> Inr v)"

definition iloc_0 :: "('k, 'c) frame \<Rightarrow> exn + ('k, 'c) frame" where
  "iloc_0 df =
     (case index df of
        [] \<Rightarrow> Inl (IndexError ''positional indexers are out-of-bounds'')
      | i # rest \<Rightarrow> Inr \<lparr>index = [i], data = map (\<lambda>(c, vs). (c, take 1 vs)) (data df)\<rparr>)"

text \<open>\<open>eval\<close>, \<open>int\<close> and \<open>float\<close> of a cell: a missing cell is \<open>None\<close>, which none of the
  three accepts. A cell passed on as it is becomes a string or \<open>None\<close>.\<close>

definition eval_cell :: "py \<Rightarrow> scope \<Rightarrow> cell \<Rightarrow> exn + pyobj" where
  "eval_cell lib locals c =
     (case c of
        None \<Rightarrow> Inl (TypeError ''eval() arg 1 must be a string, bytes or code object'')
      | Some s \<Rightarrow> py_eval lib locals s)"

definition int_cell :: "py \<Rightarrow> cell \<Rightarrow> exn + int" where
  "int_cell lib c =
     (case c of
        None \<Rightarrow> Inl (TypeError ''int() argument must be a string or a real number'')
      | Some s \<Rightarrow> py_int lib s)"

definition float_cell :: "py \<Rightarrow> cell \<Rightarrow> exn + real" where
  "float_cell lib c =
     (case c of
        None \<Rightarrow> Inl (TypeError ''float() argument must be a string or a real number'')
      | Some s \<Rightarrow> py_float lib s)"

definition raw_cell :: "cell \<Rightarrow> pyobj" where
  "raw_cell c = (case c of None \<Rightarrow> PyNone | Some s \<Rightarrow> PyStr s)"

subsection \<open>The tracking service\<close>

text \<open>
  MLflow as \<open>train.py\<close> uses it, through the fluent interface and the registry client:
  the runs of the experiment \<open>prob_loan\<close>, in the order in which \<open>search_runs\<close> returns
  them; the stack of active runs of the process; the store behind the registry; the
  versions of the registered models in the order the store enumerates them; the aliases;
  and a journal of the calls made, oldest first. The service is taken to be reachable: a
  call fails only where the state says so.
\<close>

datatype run_status = RUNNING | FINISHED | FAILED

datatype stage = StageNone | Staging | Production | Archived

text \<open>The store of the registry: the database store, or the file store, which lists the
  stages in an order of the server process (given here by a rank of each stage).\<close>

datatype registry_store = SqlStore | FileStore "stage \<Rightarrow> nat"

record logged_model =
  artifact_path :: string
  sk_model :: fitted
  pyfunc_predict_fn :: string
  input_example :: "(string, scalar) frame"

record run =
  run_id :: nat
  run_name :: string
  status :: run_status
  metrics :: "(string \<times> real) list"
  params :: "(string \<times> string) list"
  tags :: "(string \<times> string) list"
  models :: "logged_model list"

record model_version =
  mv_name :: string
  version :: nat
  current_stage :: stage
  source_run :: nat

datatype call =
    Info string
  | SearchRuns string
  | StartRun nat string
  | SetTag nat string string
  | EndRun nat run_status
  | Fit pipeline
  | EvaluatePredictions "(string, scalar) frame" "real list"
  | LogMetric nat string real
  | LogModel nat string
  | CreateModelVersion string nat
  | GetRegisteredModel string
  | SetRegisteredModelAlias string string nat

record mlflow =
  runs :: "run list"
  active_run_stack :: "nat list"
  store :: registry_store
  model_versions :: "model_version list"
  aliases :: "((string \<times> string) \<times> nat) list"
  journal :: "call list"

definition record_call :: "call \<Rightarrow> mlflow \<Rightarrow> mlflow" where
  "record_call c st = st\<lparr>journal := journal st @ [c]\<rparr>"

definition update_run :: "nat \<Rightarrow> (run \<Rightarrow> run) \<Rightarrow> mlflow \<Rightarrow> mlflow" where
  "update_run i f st = st\<lparr>runs := map (\<lambda>r. if run_id r = i then f r else r) (runs st)\<rparr>"

text \<open>Run identifiers are unique; a new run takes one that no run has.\<close>

definition new_run_id :: "run list \<Rightarrow> nat" where
  "new_run_id rs = foldr (\<lambda>r n. max (Suc (run_id r)) n) rs 0"

definition create_run :: "string \<Rightarrow> mlflow \<Rightarrow> nat \<times> mlflow" where
  "create_run n st =
     (let i = new_run_id (runs st);
          r = \<lparr>run_id = i, run_name = n, status = RUNNING, metrics = [], params = [],
               tags = [], models = []\<rparr>
      in (i, record_call (StartRun i n)
               (st\<lparr>runs := r # runs st, active_run_stack := i # active_run_stack st\<rparr>)))"

text \<open>\<open>mlflow.start_run(run_name=n)\<close>, not nested: refused while a run is active.\<close>

definition start_run :: "string \<Rightarrow> mlflow \<Rightarrow> (exn + nat) \<times> mlflow" where
  "start_run n st =
     (case active_run_stack st of
        [] \<Rightarrow> (case create_run n st of (i, st') \<Rightarrow> (Inr i, st'))
      | a # rest \<Rightarrow> (Inl (Exception ''Run is already active''), st))"

text \<open>\<open>mlflow.end_run(status)\<close>, which the \<open>with\<close> statement calls on every exit.\<close>

definition end_run :: "run_status \<Rightarrow> mlflow \<Rightarrow> mlflow" where
  "end_run s st =
     (case active_run_stack st of
        [] \<Rightarrow> st
      | a # rest \<Rightarrow>
          record_call (EndRun a s)
            (update_run a (\<lambda>r. r\<lparr>status := s\<rparr>) (st\<lparr>active_run_stack := rest\<rparr>)))"

text \<open>The fluent logging calls act on the active run and start one, under a name of
  MLflow's choosing (here the empty name), when none is active.\<close>

definition get_or_start_run :: "mlflow \<Rightarrow> nat \<times> mlflow" where
  "get_or_start_run st =
     (case active_run_stack st of
        [] \<Rightarrow> create_run [] st
      | a # rest \<Rightarrow> (a, st))"

definition set_tag :: "string \<Rightarrow> string \<Rightarrow> mlflow \<Rightarrow> mlflow" where
  "set_tag k v st =
     (case get_or_start_run st of
        (i, st') \<Rightarrow> record_call (SetTag i k v) (update_run i (\<lambda>r. r\<lparr>tags := (k, v) # tags r\<rparr>) st'))"

definition log_metric :: "string \<Rightarrow> real \<Rightarrow> mlflow \<Rightarrow> mlflow" where
  "log_metric k v st =
     (case get_or_start_run st of
        (i, st') \<Rightarrow>
          record_call (LogMetric i k v) (update_run i (\<lambda>r. r\<lparr>metrics := (k, v) # metrics r\<rparr>) st'))"

text \<open>A new version of a registered model takes the number after the highest one the
  model has had, and starts in no stage.\<close>

definition next_version :: "string \<Rightarrow> model_version list \<Rightarrow> nat" where
  "next_version n mvs = Suc (foldr (\<lambda>mv k. if mv_name mv = n then max (version mv) k else k) mvs 0)"

definition create_model_version :: "string \<Rightarrow> nat \<Rightarrow> mlflow \<Rightarrow> mlflow" where
  "create_model_version n src st =
     (let v = next_version n (model_versions st)
      in record_call (CreateModelVersion n v)
           (st\<lparr>model_versions := model_versions st
                  @ [\<lparr>mv_name = n, version = v, current_stage = StageNone, source_run = src\<rparr>]\<rparr>))"

text \<open>\<open>mlflow.sklearn.log_model(pipe, path, pyfunc_predict_fn=f, input_example=x,
  registered_model_name=n)\<close>: the model is stored with the active run and registered as a
  new version of \<open>n\<close>.\<close>

definition log_model ::
  "fitted \<Rightarrow> string \<Rightarrow> string \<Rightarrow> (string, scalar) frame \<Rightarrow> string \<Rightarrow> mlflow \<Rightarrow> mlflow"
  where
  "log_model pipe path f x n st =
     (case get_or_start_run st of
        (i, st') \<Rightarrow>
          create_model_version n i
            (record_call (LogModel i path)
               (update_run i
                  (\<lambda>r. r\<lparr>models := \<lparr>artifact_path = path, sk_model = pipe,
                                     pyfunc_predict_fn = f, input_example = x\<rparr> # models r\<rparr>)
                  st')))"

text \<open>
  \<open>latest_versions\<close> of a registered model is, for each stage that holds a version of it,
  the highest version in that stage. The database store lists the stages in the order
  in which it first meets them among the versions; the file store lists them in its
  order of the stages.
\<close>

definition note_version ::
  "(stage \<times> model_version) list \<Rightarrow> model_version \<Rightarrow> (stage \<times> model_version) list" where
  "note_version d mv =
     (if current_stage mv \<in> fst ` set d
      then map (\<lambda>(s, m). if s = current_stage mv \<and> version m < version mv then (s, mv)
                          else (s, m)) d
      else d @ [(current_stage mv, mv)])"

definition latest_in_stage :: "model_version list \<Rightarrow> stage \<Rightarrow> model_version option" where
  "latest_in_stage mvs s = map_of (foldl note_version [] mvs) s"

definition latest_versions ::
  "registry_store \<Rightarrow> string \<Rightarrow> model_version list \<Rightarrow> model_version list" where
  "latest_versions st_kind n mvs =
     (let named = filter (\<lambda>mv. mv_name mv = n) mvs
      in case st_kind of
           SqlStore \<Rightarrow> map snd (foldl note_version [] named)
         | FileStore rank \<Rightarrow>
             List.map_filter (latest_in_stage named)
               (sort_key rank [StageNone, Staging, Production, Archived]))"

definition get_registered_model :: "string \<Rightarrow> mlflow \<Rightarrow> model_version list \<times> mlflow" where
  "get_registered_model n st =
     (latest_versions (store st) n (model_versions st), record_call (GetRegisteredModel n) st)"

definition set_registered_model_alias :: "string \<Rightarrow> string \<Rightarrow> nat \<Rightarrow> mlflow \<Rightarrow> mlflow" where
  "set_registered_model_alias n a v st =
     record_call (SetRegisteredModelAlias n a v) (st\<lparr>aliases := ((n, a), v) # aliases st\<rparr>)"

definition alias_of :: "mlflow \<Rightarrow> string \<Rightarrow> string \<Rightarrow> nat option" where
  "alias_of st n a = map_of (aliases st) (n, a)"

subsection \<open>The frame of runs\<close>

text \<open>
  \<open>mlflow.search_runs(filter_string="metrics.valid_roc_auc < 1")\<close> gives one row per run of
  the experiment whose latest value of the metric is below 1, labelled \<open>0, 1, ...\<close>. The
  frame has a column \<open>metrics.k\<close> or \<open>params.k\<close> when one of the runs found has the metric
  or parameter \<open>k\<close>; a run without it has a missing cell there. Selecting or reordering
  rows keeps the columns.
\<close>

record runs_frame =
  metric_columns :: "string list"
  param_columns :: "string list"
  rows :: "(nat \<times> run) list"

definition valid_roc_auc :: "run \<Rightarrow> real option" where
  "valid_roc_auc r = map_of (metrics r) ''valid_roc_auc''"

definition eligible :: "run \<Rightarrow> bool" where
  "eligible r = (case valid_roc_auc r of None \<Rightarrow> False | Some v \<Rightarrow> v < 1)"

definition search_runs :: "mlflow \<Rightarrow> runs_frame \<times> mlflow" where
  "search_runs st =
     (let found = filter eligible (runs st)
      in (\<lparr>metric_columns = remdups (concat (map (\<lambda>r. map fst (metrics r)) found)),
           param_columns = remdups (concat (map (\<lambda>r. map fst (params r)) found)),
           rows = zip [0..<length found] found\<rparr>,
          record_call (SearchRuns ''metrics.valid_roc_auc < 1'') st))"

text \<open>
  \<open>df.sort_values("metrics.valid_roc_auc", ascending=False)\<close>: the rows in descending
  order of the metric, rows with a missing value last. Rows of equal value come in the
  order in which the sort of numpy leaves them: the rows are arranged by their rank
  among equals first, and then sorted by value, keeping that arrangement among equals.
\<close>

definition roc_auc_key :: "nat \<times> run \<Rightarrow> real" where
  "roc_auc_key row = (case valid_roc_auc (snd row) of None \<Rightarrow> 0 | Some v \<Rightarrow> v)"

definition arrange_ties :: "py \<Rightarrow> (nat \<times> run) list \<Rightarrow> (nat \<times> run) list" where
  "arrange_ties lib rs =
     map snd (sort_key fst
       (zip (map (tie_order lib (map roc_auc_key rs)) [0..<length rs]) rs))"

definition sort_values :: "py \<Rightarrow> runs_frame \<Rightarrow> exn + runs_frame" where
  "sort_values lib df =
     (if ''valid_roc_auc'' \<in> set (metric_columns df)
      then Inr (df\<lparr>rows :=
                  rev (sort_key roc_auc_key
                         (rev (arrange_ties lib
                                 (filter (\<lambda>row. valid_roc_auc (snd row) \<noteq> None) (rows df)))))
                  @ filter (\<lambda>row. valid_roc_auc (snd row) = None) (rows df)\<rparr>)
      else Inl (KeyError ''metrics.valid_roc_auc''))"

text \<open>\<open>df["metrics.valid_roc_auc"].idxmax()\<close>: the label of the first row, in the order of
  the frame, that holds the greatest value; missing values are skipped.\<close>

fun first_max :: "nat \<times> run \<Rightarrow> (nat \<times> run) list \<Rightarrow> nat \<times> run" where
  "first_max best [] = best"
| "first_max best (row # others) =
     (if roc_auc_key best < roc_auc_key row then first_max row others
      else first_max best others)"

definition idxmax :: "runs_frame \<Rightarrow> exn + nat" where
  "idxmax df =
     (case filter (\<lambda>row. valid_roc_auc (snd row) \<noteq> None) (rows df) of
        [] \<Rightarrow> Inl (ValueError ''attempt to get argmax of an empty sequence'')
      | row # others \<Rightarrow> Inr (fst (first_max row others)))"

text \<open>\<open>df.loc[label]\<close> on a frame whose labels are distinct, and
  \<open>df.loc[df["run_id"] == i]\<close>.\<close>

definition loc :: "runs_frame \<Rightarrow> nat \<Rightarrow> exn + run" where
  "loc df l =
     (case find (\<lambda>row. fst row = l) (rows df) of
        None \<Rightarrow> Inl (KeyError ''label'')
      | Some row \<Rightarrow> Inr (snd row))"

definition loc_run_id :: "runs_frame \<Rightarrow> nat \<Rightarrow> runs_frame" where
  "loc_run_id df i = df\<lparr>rows := filter (\<lambda>row. run_id (snd row) = i) (rows df)\<rparr>"

text \<open>\<open>df[[params.k1, ..., params.kn]]\<close>: the frame of these parameter columns.\<close>

definition params_columns :: "runs_frame \<Rightarrow> string list \<Rightarrow> exn + (string, cell) frame" where
  "params_columns df ks =
     (if set ks \<subseteq> set (param_columns df)
      then Inr \<lparr>index = map fst (rows df),
                data = map (\<lambda>k. (''params.'' @ k,
                                   map (\<lambda>row. map_of (params (snd row)) k) (rows df))) ks\<rparr>
      else Inl (KeyError ''not in index''))"

subsection \<open>\<open>get_best_model\<close> and \<open>run\<close>\<close>

definition best_params_keys :: "string list" where
  "best_params_keys =
     [''class_weight'', ''discretizer'', ''warm_start'', ''imputer'', ''solver'', ''scaler'',
      ''max_iter'', ''fit_intercept'', ''tol'', ''multi_class'', ''C'']"

text \<open>\<open>get_best_model\<close> (lines 62 to 88). The metric it returns is a cell of the frame:
  \<open>Some v\<close> for the number \<open>v\<close>, \<open>None\<close> for NaN.\<close>

definition get_best_model ::
  "py \<Rightarrow> mlflow \<Rightarrow> (exn + real option \<times> (string, cell) frame) \<times> mlflow" where
  "get_best_model lib st =
     (case search_runs (record_call (Info ''Obtendo o melhor modelo do MLFlow'') st) of
        (found, st') \<Rightarrow>
          (then_do (sort_values lib found) (\<lambda>df_mlflow.
           then_do (idxmax df_mlflow) (\<lambda>l.
           then_do (loc df_mlflow l) (\<lambda>best.
           then_do (params_columns (loc_run_id df_mlflow (run_id best)) best_params_keys)
             (\<lambda>df_best_params.
           then_do (idxmax df_mlflow) (\<lambda>l'.
           then_do (loc df_mlflow l') (\<lambda>best'.
           Inr (valid_roc_auc best', df_best_params))))))),
           st'))"

text \<open>The constructor call of lines 102 to 110: seven keyword arguments, evaluated from
  left to right, in the scope \<open>locals\<close> of \<open>run\<close>.\<close>

definition LogisticRegression :: "py \<Rightarrow> scope \<Rightarrow> exn + pyobj" where
  "LogisticRegression lib locals =
     (let df_best_params = local_df_best_params locals in
      then_do (values_0 df_best_params ''params.warm_start'') (\<lambda>c1.
      then_do (eval_cell lib locals c1) (\<lambda>warm_start.
      then_do (values_0 df_best_params ''params.multi_class'') (\<lambda>multi_class.
      then_do (values_0 df_best_params ''params.class_weight'') (\<lambda>class_weight.
      then_do (values_0 df_best_params ''params.max_iter'') (\<lambda>c4.
      then_do (int_cell lib c4) (\<lambda>max_iter.
      then_do (values_0 df_best_params ''params.C'') (\<lambda>c5.
      then_do (float_cell lib c5) (\<lambda>C.
      then_do (values_0 df_best_params ''params.solver'') (\<lambda>solver.
      then_do (values_0 df_best_params ''params.tol'') (\<lambda>c7.
      then_do (float_cell lib c7) (\<lambda>tol.
      Inr (PyObject ''LogisticRegression''
             [(''warm_start'', warm_start),
              (''multi_class'', raw_cell multi_class),
              (''class_weight'', raw_cell class_weight),
              (''max_iter'', PyInt max_iter),
              (''C'', PyFloat C),
              (''solver'', raw_cell solver),
              (''tol'', PyFloat tol)])))))))))))))"

text \<open>The \<open>with\<close> block of lines 99 to 110: the run \<open>final_model\<close> is started, tagged and,
  whether the block ends with the classifier or with an exception, ended.\<close>

definition with_final_model :: "py \<Rightarrow> scope \<Rightarrow> mlflow \<Rightarrow> (exn + pyobj) \<times> mlflow" where
  "with_final_model lib locals st =
     (case start_run ''final_model'' st of
        (Inl e, st1) \<Rightarrow> (Inl e, st1)
      | (Inr i, st1) \<Rightarrow>
          (let st2 = set_tag ''model_name'' (model_name (local_self locals)) st1
           in case LogisticRegression lib locals of
                Inl e \<Rightarrow> (Inl e, end_run FAILED st2)
              | Inr model \<Rightarrow> (Inr model, end_run FINISHED st2)))"

text \<open>The \<open>Pipeline\<close> of lines 112 to 122; the scope now holds the classifier.\<close>

definition Pipeline :: "py \<Rightarrow> scope \<Rightarrow> pyobj \<Rightarrow> exn + pipeline" where
  "Pipeline lib locals model =
     (let df_best_params = local_df_best_params locals;
          locals' = locals\<lparr>local_model := Some model\<rparr> in
      then_do (values_0 df_best_params ''params.imputer'') (\<lambda>c1.
      then_do (eval_cell lib locals' c1) (\<lambda>imputer.
      then_do (values_0 df_best_params ''params.discretizer'') (\<lambda>c2.
      then_do (eval_cell lib locals' c2) (\<lambda>discretizer.
      then_do (values_0 df_best_params ''params.scaler'') (\<lambda>c3.
      then_do (eval_cell lib locals' c3) (\<lambda>scaler.
      Inr [(''imputer'', imputer), (''discretizer'', discretizer), (''scaler'', scaler),
           (''model'', model)])))))))"

text \<open>Lines 124 to 131: fitting, and the evaluation of the fitted pipeline on the data it
  was fitted on.\<close>

definition fit_and_evaluate ::
  "py \<Rightarrow> trainer \<Rightarrow> pipeline \<Rightarrow> mlflow \<Rightarrow> (exn + fitted \<times> real) \<times> mlflow" where
  "fit_and_evaluate lib self pipe st =
     (let st1 = record_call (Fit pipe) st
      in case fit lib pipe (dados_X self) (dados_y self) of
           Some e \<Rightarrow> (Inl e, st1)
         | None \<Rightarrow>
             (let fitted_pipe = \<lparr>steps = pipe, fit_X = dados_X self, fit_y = dados_y self\<rparr>
              in case then_do (predict_log_proba lib fitted_pipe (dados_X self)) column_1 of
                   Inl e \<Rightarrow> (Inl e, st1)
                 | Inr y_val_preds \<Rightarrow>
                     (let st2 = record_call (EvaluatePredictions (dados_y self) y_val_preds) st1
                      in case evaluate_predictions lib fitted_pipe (dados_y self) y_val_preds of
                           Inl e \<Rightarrow> (Inl e, st2)
                         | Inr val_roc_auc \<Rightarrow> (Inr (fitted_pipe, val_roc_auc), st2))))"

text \<open>Lines 132 to 147: the metric, the registration and the alias.\<close>

definition log_and_register ::
  "trainer \<Rightarrow> fitted \<Rightarrow> real \<Rightarrow> mlflow \<Rightarrow> (exn + unit) \<times> mlflow" where
  "log_and_register self fitted_pipe val_roc_auc st =
     (let st1 = log_metric ''valid_roc_auc'' val_roc_auc st
      in case iloc_0 (dados_X self) of
           Inl e \<Rightarrow> (Inl e, st1)
         | Inr x \<Rightarrow>
             (let st2 = log_model fitted_pipe (model_name self) ''predict_proba'' x
                          (model_name self) st1
              in case get_registered_model (model_name self) st2 of
                   (latest, st3) \<Rightarrow>
                     (if latest = [] then (Inl (IndexError ''list index out of range''), st3)
                      else (Inr (),
                            set_registered_model_alias (model_name self) ''modelo''
                              (version (last latest)) st3))))"

text \<open>\<open>run\<close> (lines 96 to 147).\<close>

definition run :: "py \<Rightarrow> trainer \<Rightarrow> mlflow \<Rightarrow> (exn + unit) \<times> mlflow" where
  "run lib self st =
     (case get_best_model lib st of
        (Inl e, st1) \<Rightarrow> (Inl e, st1)
      | (Inr (best_roc_auc, df_best_params), st1) \<Rightarrow>
          (let locals = \<lparr>local_self = self, local_metric = best_roc_auc,
                         local_df_best_params = df_best_params, local_model = None\<rparr>
           in case with_final_model lib locals
                     (record_call
                        (Info (''Iniciando o treinamento do modelo: '' @ model_name self)) st1) of
                (Inl e, st2) \<Rightarrow> (Inl e, st2)
              | (Inr model, st2) \<Rightarrow>
                  (case Pipeline lib locals model of
                     Inl e \<Rightarrow> (Inl e, st2)
                   | Inr pipe \<Rightarrow>
                       (case fit_and_evaluate lib self pipe st2 of
                          (Inl e, st3) \<Rightarrow> (Inl e, st3)
                        | (Inr (fitted_pipe, val_roc_auc), st3) \<Rightarrow>
                            log_and_register self fitted_pipe val_roc_auc st3))))"

subsection \<open>An example session\<close>

text \<open>
  Four historical runs with the metrics 0.81, 0.95, 1.0 and 0.62, each with the eleven
  hyperparameters; a registry on the database store in which version 1 of the model is
  in no stage and version 2 has been moved to the stage Production, with the alias on
  version 2; libraries that evaluate the strings of the example without looking at the
  scope, leave equal values in their order, fit without error and predict the
  probabilities 1/4 and 3/4 (logarithms -1.3863 and -0.2877) for every row.
\<close>

definition hyperparameters :: "string \<Rightarrow> string \<Rightarrow> (string \<times> string) list" where
  "hyperparameters c fi =
     [(''class_weight'', ''balanced''), (''discretizer'', ''EqualFrequencyDiscretiser()''),
      (''warm_start'', ''True''), (''imputer'', ''MeanMedianImputer()''),
      (''solver'', ''lbfgs''), (''scaler'', ''StandardScaler()''), (''max_iter'', ''100''),
      (''fit_intercept'', fi), (''tol'', ''0.0001''), (''multi_class'', ''auto''), (''C'', c)]"

definition past_run :: "nat \<Rightarrow> real \<Rightarrow> string \<Rightarrow> string \<Rightarrow> run" where
  "past_run i v c fi =
     \<lparr>run_id = i, run_name = ''search'', status = FINISHED,
      metrics = [(''valid_roc_auc'', v)], params = hyperparameters c fi, tags = [],
      models = []\<rparr>"

definition example_versions :: "model_version list" where
  "example_versions =
     [\<lparr>mv_name = ''prob_loan_model'', version = 1, current_stage = StageNone, source_run = 1\<rparr>,
      \<lparr>mv_name = ''prob_loan_model'', version = 2, current_stage = Production, source_run = 2\<rparr>]"

definition example_mlflow :: mlflow where
  "example_mlflow =
     \<lparr>runs = [past_run 4 (81 / 100) ''0.5'' ''True'', past_run 3 (95 / 100) ''1.0'' ''False'',
              past_run 2 1 ''2.0'' ''True'', past_run 1 (62 / 100) ''0.1'' ''True''],
      active_run_stack = [],
      store = SqlStore,
      model_versions = example_versions,
      aliases = [((''prob_loan_model'', ''modelo''), 2)],
      journal = []\<rparr>"

definition eval_literal :: "string \<Rightarrow> exn + pyobj" where
  "eval_literal s =
     (case map_of [(''True'', PyBool True), (''False'', PyBool False),
                   (''MeanMedianImputer()'', PyObject ''MeanMedianImputer'' []),
                   (''EqualFrequencyDiscretiser()'', PyObject ''EqualFrequencyDiscretiser'' []),
                   (''StandardScaler()'', PyObject ''StandardScaler'' [])] s of
        None \<Rightarrow> Inl (Exception ''invalid expression'')
      | Some v \<Rightarrow> Inr v)"

definition example_py :: py where
  "example_py =
     \<lparr>py_eval = (\<lambda>locals s. eval_literal s),
      py_int = (\<lambda>s. if s = ''100'' then Inr 100 else Inl (ValueError ''invalid literal for int()'')),
      py_float = (\<lambda>s. case map_of [(''0.0001'', 1 / 10000), (''0.1'', 1 / 10), (''0.5'', 1 / 2),
                                       (''1.0'', 1), (''2.0'', 2)] s of
                           None \<Rightarrow> Inl (ValueError ''could not convert string to float'')
                         | Some v \<Rightarrow> Inr v),
      tie_order = (\<lambda>ks i. i),
      fit = (\<lambda>pipe X y. None),
      predict_proba = (\<lambda>m X. Inr (map (\<lambda>i. [1 / 4, 3 / 4]) (index X))),
      predict_log_proba = (\<lambda>m X. Inr (map (\<lambda>i. [- 13863 / 10000, - 2877 / 10000]) (index X))),
      evaluate_predictions = (\<lambda>m y p. Inr (9 / 10))\<rparr>"

definition example_trainer :: trainer where
  "example_trainer =
     \<lparr>dados_X = \<lparr>index = [0, 1], data = [(''income'', [NaN, FloatCell 1200])]\<rparr>,
      dados_y = \<lparr>index = [0, 1], data = [(''default'', [IntCell 0, IntCell 1])]\<rparr>,
      model_name = ''prob_loan_model''\<rparr>"

subsection \<open>Reading the journal\<close>

text \<open>The arguments of the evaluations and the metrics logged, in the order of the calls.\<close>

fun evaluated :: "call list \<Rightarrow> ((string, scalar) frame \<times> real list) list" where
  "evaluated [] = []"
| "evaluated (EvaluatePredictions y p # cs) = (y, p) # evaluated cs"
| "evaluated (c # cs) = evaluated cs"

fun logged_metrics :: "call list \<Rightarrow> (nat \<times> string \<times> real) list" where
  "logged_metrics [] = []"
| "logged_metrics (LogMetric i k v # cs) = (i, k, v) # logged_metrics cs"
| "logged_metrics (c # cs) = logged_metrics cs"

subsection \<open>More sessions and libraries\<close>

text \<open>The example session with the run of metric 1.0 as its only run.\<close>

definition sentinel_only :: mlflow where
  "sentinel_only = example_mlflow\<lparr>runs := [past_run 2 1 ''2.0'' ''True'']\<rparr>"

text \<open>Two runs of equal metric 0.95 and different hyperparameters, retrieved in the one
  order and in the other.\<close>

definition tied_runs :: mlflow where
  "tied_runs = example_mlflow\<lparr>runs := [past_run 7 (95 / 100) ''1.0'' ''True'',
                                       past_run 8 (95 / 100) ''0.1'' ''True'']\<rparr>"

definition tied_runs_swapped :: mlflow where
  "tied_runs_swapped = example_mlflow\<lparr>runs := [past_run 8 (95 / 100) ''0.1'' ''True'',
                                               past_run 7 (95 / 100) ''1.0'' ''True'']\<rparr>"

text \<open>The example registry on a file store that lists the stage Production last, and on
  one that lists no stage last.\<close>

definition production_last :: "stage \<Rightarrow> nat" where
  "production_last s = (case s of StageNone \<Rightarrow> 0 | Staging \<Rightarrow> 1 | Archived \<Rightarrow> 2 | Production \<Rightarrow> 3)"

definition none_last :: "stage \<Rightarrow> nat" where
  "none_last s = (case s of Staging \<Rightarrow> 0 | Production \<Rightarrow> 1 | Archived \<Rightarrow> 2 | StageNone \<Rightarrow> 3)"






section \<open>Properties of the loader\<close>

subsection \<open>Every failure is caught\<close>

lemma read_csv_no_interrupt: "read_csv env p \<noteq> Inl KeyboardInterrupt"
  by (simp add: read_csv_def split: csv_file.splits)

lemma getitem_no_interrupt: "getitem df key \<noteq> Inl KeyboardInterrupt"
  by (simp add: getitem_def split: option.splits cfg.splits)

lemma load_data_try_Exception:
  "fst (load_data_try env n) = Inl e \<Longrightarrow> isinstance_Exception e"
  using read_csv_no_interrupt [of env] getitem_no_interrupt
  by (cases e) (auto simp: load_data_try_def Let_def split: option.splits cfg.splits sum.splits)

lemma load_data_returned:
  "load_data_try env n = (Inr d, evs) \<Longrightarrow> fst (load_data env n) = Inr (Some d)"
  by (simp add: load_data_def Let_def)

lemma load_data_caught:
  assumes "load_data_try env n = (Inl e, evs)"
  shows "fst (load_data env n) = Inr None \<and>
         (\<exists>m. snd (load_data env n) =
                LogInfo (''Come'' @ [CHR 0xC3, CHR 0xA7]
                         @ ''ando a carga dos dados com o nome '' @ n) # evs @ [LogError m])"
proof -
  from assms have "isinstance_Exception e"
    using load_data_try_Exception [of env n e] by simp
  with assms show ?thesis by (simp add: load_data_def Let_def)
qed

lemma example_unknown_name:
  "load_data_try example_env ''nope'' =
     (Inl (ValueError (''Erro: O nome do dataset fornecido '' @ [CHR 0xC3, CHR 0xA9]
                       @ '' incorreto: None'')), [LoadConfig])"
  by (simp add: load_data_try_def example_env_def)

text \<open>
  C6. Whatever the configuration, the file system and the name, no exception leaves
  \<open>load_data\<close>; and whenever the body of its \<open>try\<close> block raises (an unknown name, a
  missing or malformed file, a column that the file does not have, a configuration value
  of the wrong type), the caller receives \<open>None\<close>, whatever the cause, and the last
  effect of the call is an error message in the log.
\<close>

theorem load_data_swallows:
  "(\<forall>e. fst (load_data env n) \<noteq> Inl e) \<and>
   (\<forall>e. fst (load_data_try env n) = Inl e \<longrightarrow>
      fst (load_data env n) = Inr None \<and> (\<exists>m. last (snd (load_data env n)) = LogError m))"
proof (cases "load_data_try env n")
  case (Pair r evs)
  show ?thesis
  proof (cases r)
    case (Inl e)
    with Pair load_data_caught [of env n e evs] show ?thesis by auto
  next
    case (Inr d)
    with Pair load_data_returned [of env n d evs] show ?thesis by auto
  qed
qed

theorem load_data_swallows_example:
  "fst (load_data example_env ''nope'') = Inr None \<and>
   (\<exists>m. last (snd (load_data example_env ''nope'')) = LogError m)"
  using load_data_swallows [of example_env "''nope''"] example_unknown_name by simp

subsection \<open>An unknown name\<close>

text \<open>
  C3, as the specification states it, fails: for a name that the configuration does not
  have, the caller is not signalled an error. In the example project the call
  \<open>load_data("nope")\<close> returns \<open>None\<close>.
\<close>

theorem load_data_unknown_is_silent:
  "config example_env ''nope'' = None \<and> fst (load_data example_env ''nope'') = Inr None"
  by (simp add: load_data_def load_data_try_def example_env_def Let_def)

text \<open>
  C3, amended. For every name that the configuration does not have, the \<open>try\<close> block
  raises a \<open>ValueError\<close>, which \<open>load_data\<close> catches and logs; the caller receives
  \<open>None\<close>. The effects of the call are the opening log message, one reading of the
  configuration and the error message: no file is read.
\<close>

theorem load_data_unknown_name:
  assumes "config env n = None"
  shows "fst (load_data_try env n) =
           Inl (ValueError (''Erro: O nome do dataset fornecido '' @ [CHR 0xC3, CHR 0xA9]
                            @ '' incorreto: None'')) \<and>
         fst (load_data env n) = Inr None \<and>
         snd (load_data env n) =
           [LogInfo (''Come'' @ [CHR 0xC3, CHR 0xA7] @ ''ando a carga dos dados com o nome '' @ n),
            LoadConfig,
            LogError (''Erro: O nome do dataset fornecido '' @ [CHR 0xC3, CHR 0xA9]
                      @ '' incorreto: None'')] \<and>
         (\<forall>p. ReadCsv p \<notin> set (snd (load_data env n)))"
  using assms by (simp add: load_data_def load_data_try_def Let_def)

theorem load_data_unknown_name_example:
  "fst (load_data example_env ''nope'') = Inr None \<and>
   (\<forall>p. ReadCsv p \<notin> set (snd (load_data example_env ''nope'')))"
proof -
  have "config example_env ''nope'' = None" by (simp add: example_env_def)
  from load_data_unknown_name [OF this] show ?thesis by simp
qed

subsection \<open>A known name\<close>

lemma select_columns_all:
  "set cs \<subseteq> fst ` set d \<Longrightarrow>
   \<exists>d'. select_columns d cs = Some d' \<and> map fst d' = cs \<and>
        (\<forall>c \<in> set cs. map_of d' c = map_of d c)"
proof (induction cs)
  case Nil
  then show ?case by simp
next
  case (Cons c cs)
  then obtain d' where d': "select_columns d cs = Some d'" "map fst d' = cs"
    "\<forall>c \<in> set cs. map_of d' c = map_of d c" by auto
  from Cons.prems have "c \<in> fst ` set d" by simp
  then obtain v where v: "map_of d c = Some v"
    by (metis domD dom_map_of_conv_image_fst)
  with d' show ?case by auto
qed

text \<open>
  C7. Let the name be configured with a file name, let \<open>pd.read_csv\<close> read the file at the
  resulting path into a frame \<open>loaded\<close> (with the distinct column names that pandas
  gives), and let the configured list of columns name columns of \<open>loaded\<close> only. Then
  \<open>load_data\<close> returns a frame whose columns are the configured list, in its order; its
  rows are the rows that pandas has read from the file, all of them and in the same
  order; and each of its columns holds the cells that \<open>loaded\<close> holds under that name.
\<close>

theorem load_data_columns:
  assumes "config env n = Some (CStr f)"
      and "files env (os_path_join (root env) [''data'', ''raw'', f]) = Table loaded"
      and "distinct (columns loaded)"
      and "config env ''columns_to_use'' = Some (CList cs)"
      and "set cs \<subseteq> set (columns loaded)"
  shows "\<exists>df. fst (load_data env n) = Inr (Some (DataFrame df)) \<and>
              columns df = cs \<and>
              index df = index loaded \<and>
              length (index df) = length (index loaded) \<and>
              (\<forall>c \<in> set cs. map_of (data df) c = map_of (data loaded) c)"
proof -
  let ?p = "os_path_join (root env) [''data'', ''raw'', f]"
  have rd: "read_csv env ?p = Inr loaded"
    using assms(2) by (simp add: read_csv_def)
  from assms(5) have "set cs \<subseteq> fst ` set (data loaded)" by (simp add: columns_def)
  from select_columns_all [OF this] obtain d' where d':
    "select_columns (data loaded) cs = Some d'" "map fst d' = cs"
    "\<forall>c \<in> set cs. map_of d' c = map_of (data loaded) c"
    by blast
  have res: "fst (load_data env n) = Inr (Some (DataFrame \<lparr>index = index loaded, data = d'\<rparr>))"
    using assms(1,4) rd d'(1)
    by (simp add: load_data_def load_data_try_def Let_def getitem_def)
  show ?thesis
    using res d'(2,3)
    by (intro exI [of _ "\<lparr>index = index loaded, data = d'\<rparr>"]) (simp add: columns_def)
qed

theorem load_data_columns_example:
  "(\<exists>df. fst (load_data example_env ''loan'') = Inr (Some (DataFrame df)) \<and>
         columns df = [''income'', ''default''] \<and>
         index df = index loan_csv \<and>
         length (index df) = length (index loan_csv) \<and>
         (\<forall>c \<in> set [''income'', ''default'']. map_of (data df) c = map_of (data loan_csv) c)) \<and>
   fst (load_data example_env ''loan'') =
     Inr (Some (DataFrame \<lparr>index = [0, 1],
                           data = [(''income'', [NaN, FloatCell 1200]),
                                   (''default'', [IntCell 0, IntCell 1])]\<rparr>))"
proof
  show "\<exists>df. fst (load_data example_env ''loan'') = Inr (Some (DataFrame df)) \<and>
         columns df = [''income'', ''default''] \<and>
         index df = index loan_csv \<and>
         length (index df) = length (index loan_csv) \<and>
         (\<forall>c \<in> set [''income'', ''default'']. map_of (data df) c = map_of (data loan_csv) c)"
    by (rule load_data_columns [where f = "''loan.csv''"])
       (simp_all add: example_env_def os_path_join_def join2_def loan_csv_def columns_def)
next
  show "fst (load_data example_env ''loan'') =
     Inr (Some (DataFrame \<lparr>index = [0, 1],
                           data = [(''income'', [NaN, FloatCell 1200]),
                                   (''default'', [IntCell 0, IntCell 1])]\<rparr>))"
    by (simp add: load_data_def load_data_try_def Let_def getitem_def read_csv_def
        example_env_def os_path_join_def join2_def loan_csv_def)
qed

section \<open>Properties of the trainer\<close>

subsection \<open>The run that \<open>get_best_model\<close> selects\<close>

lemma eligible_Some: "eligible r \<Longrightarrow> \<exists>v. valid_roc_auc r = Some v \<and> v < 1"
  by (auto simp: eligible_def split: option.splits)

lemma first_max_in: "first_max best xs \<in> set (best # xs)"
  by (induction xs arbitrary: best) auto

lemma first_max_greatest:
  "\<forall>x \<in> set (best # xs). roc_auc_key x \<le> roc_auc_key (first_max best xs)"
proof (induction xs arbitrary: best)
  case Nil
  then show ?case by simp
next
  case (Cons y ys)
  from Cons [of y] Cons [of best] show ?case by (auto simp: not_less)
qed

lemma find_only:
  "m \<in> set xs \<Longrightarrow> \<forall>x \<in> set xs. f x = f m \<longrightarrow> x = m \<Longrightarrow> find (\<lambda>x. f x = f m) xs = Some m"
  by (induction xs) auto

lemma filter_only:
  "distinct xs \<Longrightarrow> m \<in> set xs \<Longrightarrow> \<forall>x \<in> set xs. f x = f m \<longrightarrow> x = m \<Longrightarrow>
   filter (\<lambda>x. f x = f m) xs = [m]"
proof (induction xs)
  case Nil
  then show ?case by simp
next
  case (Cons x xs)
  show ?case
  proof (cases "x = m")
    case True
    with Cons.prems have "\<forall>y \<in> set xs. f y \<noteq> f m" by auto
    then have "filter (\<lambda>x. f x = f m) xs = []" by (simp add: filter_empty_conv)
    with True show ?thesis by simp
  next
    case False
    with Cons show ?thesis by auto
  qed
qed

lemma zip_upt_map: "map (\<lambda>row. f (snd row)) (zip [0..<length ys] ys) = map f ys"
proof -
  have "map (\<lambda>row. f (snd row)) zs = map f (map snd zs)" for zs
    by (induction zs) auto
  from this [of "zip [0..<length ys] ys"] show ?thesis by simp
qed

text \<open>Arranging the ties and sorting give the same rows in another order.\<close>

lemma arrange_ties_rows:
  "set (arrange_ties lib rs) = set rs"
  "length (arrange_ties lib rs) = length rs"
  "distinct (arrange_ties lib rs) = distinct rs"
proof -
  let ?zs = "zip (map (tie_order lib (map roc_auc_key rs)) [0..<length rs]) rs"
  have m: "map snd ?zs = rs" by simp
  have "set (arrange_ties lib rs) = snd ` set ?zs" by (simp add: arrange_ties_def)
  also have "\<dots> = set (map snd ?zs)" by (simp only: set_map)
  finally show "set (arrange_ties lib rs) = set rs" by (simp only: m)
  show "length (arrange_ties lib rs) = length rs" by (simp add: arrange_ties_def)
  have "distinct (arrange_ties lib rs) = distinct (map snd (sort_key fst ?zs))"
    by (simp add: arrange_ties_def)
  also have "\<dots> = (distinct (sort_key fst ?zs) \<and> inj_on snd (set (sort_key fst ?zs)))"
    by (rule distinct_map)
  also have "\<dots> = (distinct ?zs \<and> inj_on snd (set ?zs))" by simp
  also have "\<dots> = distinct (map snd ?zs)" by (rule distinct_map [symmetric])
  finally show "distinct (arrange_ties lib rs) = distinct rs" by (simp only: m)
qed

lemma get_best_model_selects:
  assumes ids: "distinct (map run_id (runs st))"
      and some: "\<exists>r \<in> set (runs st). eligible r"
      and cols: "\<forall>k \<in> set best_params_keys.
                   \<exists>r \<in> set (runs st). eligible r \<and> k \<in> fst ` set (params r)"
  shows "\<exists>r v l. r \<in> set (runs st) \<and> valid_roc_auc r = Some v \<and> v < 1 \<and>
           (\<forall>r' \<in> set (runs st). \<forall>v'. valid_roc_auc r' = Some v' \<and> v' < 1 \<longrightarrow> v' \<le> v) \<and>
           fst (get_best_model lib st) =
             Inr (Some v, \<lparr>index = [l],
                           data = map (\<lambda>k. (''params.'' @ k, [map_of (params r) k]))
                                    best_params_keys\<rparr>)"
proof -
  define found where "found = filter eligible (runs st)"
  define df0 where "df0 = zip [0..<length found] found"
  define S where "S = rev (sort_key roc_auc_key (rev (arrange_ties lib df0)))"
  define F where
    "F = fst (search_runs (record_call (Info ''Obtendo o melhor modelo do MLFlow'') st))"
  define D where "D = F\<lparr>rows := S\<rparr>"
  have F: "rows F = df0"
    "metric_columns F = remdups (concat (map (\<lambda>r. map fst (metrics r)) found))"
    "param_columns F = remdups (concat (map (\<lambda>r. map fst (params r)) found))"
    by (simp_all add: F_def df0_def found_def search_runs_def Let_def record_call_def)
  have found_ne: "found \<noteq> []" using some by (auto simp: found_def filter_empty_conv)
  have snd_df0: "map snd df0 = found" by (simp add: df0_def)
  have el: "\<forall>row \<in> set df0. eligible (snd row)"
  proof
    fix row assume "row \<in> set df0"
    then have "snd row \<in> set (map snd df0)" by simp
    then show "eligible (snd row)" by (simp add: snd_df0 found_def)
  qed
  have some_v: "\<forall>row \<in> set df0. valid_roc_auc (snd row) \<noteq> None"
    using el eligible_Some by fastforce
  have nn: "filter (\<lambda>row. \<exists>y. valid_roc_auc (snd row) = Some y) df0 = df0"
    using some_v by (simp add: filter_id_conv)
  have na: "filter (\<lambda>row. valid_roc_auc (snd row) = None) df0 = []"
    using some_v by (simp add: filter_empty_conv)
  have mc: "''valid_roc_auc'' \<in> set (metric_columns F)"
  proof -
    from found_ne obtain r where r: "r \<in> set found" by (cases found) auto
    then have "eligible r" by (simp add: found_def)
    then obtain v where "map_of (metrics r) ''valid_roc_auc'' = Some v"
      using eligible_Some by (auto simp: valid_roc_auc_def)
    then have "(''valid_roc_auc'', v) \<in> set (metrics r)" by (rule map_of_SomeD)
    then have "''valid_roc_auc'' \<in> fst ` set (metrics r)" by force
    with r show ?thesis by (auto simp: F)
  qed
  have sv: "sort_values lib F = Inr D"
    using mc by (simp add: sort_values_def F nn na D_def S_def)
  have D: "rows D = S" "param_columns D = param_columns F" by (simp_all add: D_def)
  have setS: "set S = set df0" by (simp add: S_def arrange_ties_rows)
  have "length S = length found" by (simp add: S_def arrange_ties_rows df0_def)
  with found_ne have S_ne: "S \<noteq> []" by auto
  have lab: "distinct (map fst df0)" by (simp add: df0_def)
  then have "distinct df0" by (simp add: distinct_map)
  then have dS: "distinct S" by (simp add: S_def arrange_ties_rows)
  have nnS: "filter (\<lambda>row. \<exists>y. valid_roc_auc (snd row) = Some y) S = S"
    using some_v setS by (simp add: filter_id_conv)
  from S_ne obtain row others where S_eq: "S = row # others" by (cases S) auto
  define m where "m = first_max row others"
  have m_in: "m \<in> set S" using first_max_in [of row others] by (simp add: m_def S_eq)
  have m_max: "\<forall>x \<in> set S. roc_auc_key x \<le> roc_auc_key m"
    using first_max_greatest [of row others] by (simp add: m_def S_eq)
  have im: "idxmax D = Inr (fst m)"
    by (simp add: idxmax_def D nnS) (simp add: S_eq m_def)
  have lab_only: "\<forall>x \<in> set S. fst x = fst m \<longrightarrow> x = m"
    using lab m_in setS by (auto simp: distinct_map dest: inj_onD)
  have lc: "loc D (fst m) = Inr (snd m)"
    using find_only [OF m_in lab_only] by (simp add: loc_def D)
  have ids0: "distinct (map (\<lambda>row. run_id (snd row)) df0)"
    using ids by (simp add: df0_def zip_upt_map found_def distinct_map_filter)
  have id_only: "\<forall>x \<in> set S. run_id (snd x) = run_id (snd m) \<longrightarrow> x = m"
    using ids0 m_in setS by (auto simp: distinct_map dest: inj_onD)
  have only: "filter (\<lambda>row. run_id (snd row) = run_id (snd m)) S = [m]"
    by (rule filter_only [OF dS m_in id_only])
  have pc: "set best_params_keys \<subseteq> set (param_columns F)"
  proof
    fix k assume "k \<in> set best_params_keys"
    with cols obtain r where "r \<in> set (runs st)" "eligible r" "k \<in> fst ` set (params r)"
      by blast
    then show "k \<in> set (param_columns F)" by (auto simp: F found_def)
  qed
  have pcs: "params_columns (loc_run_id D (run_id (snd m))) best_params_keys =
               Inr \<lparr>index = [fst m],
                    data = map (\<lambda>k. (''params.'' @ k, [map_of (params (snd m)) k]))
                             best_params_keys\<rparr>"
    using pc by (simp add: params_columns_def loc_run_id_def D only)
  have m_in0: "m \<in> set df0" using m_in setS by simp
  with el have "eligible (snd m)" by simp
  then obtain v where v: "valid_roc_auc (snd m) = Some v" "v < 1" using eligible_Some by blast
  have res: "fst (get_best_model lib st) =
               Inr (Some v, \<lparr>index = [fst m],
                             data = map (\<lambda>k. (''params.'' @ k, [map_of (params (snd m)) k]))
                                      best_params_keys\<rparr>)"
    using sv im lc pcs v(1)
    by (simp add: get_best_model_def case_prod_beta then_do_def F_def [symmetric])
  have r_in: "snd m \<in> set (runs st)"
  proof -
    from m_in0 have "snd m \<in> set (map snd df0)" by simp
    then show ?thesis by (simp add: snd_df0 found_def)
  qed
  have best: "\<forall>r' \<in> set (runs st). \<forall>v'. valid_roc_auc r' = Some v' \<and> v' < 1 \<longrightarrow> v' \<le> v"
  proof (intro ballI allI impI)
    fix r' v' assume r': "r' \<in> set (runs st)" and v': "valid_roc_auc r' = Some v' \<and> v' < 1"
    then have "r' \<in> set (map snd df0)" by (simp add: snd_df0 found_def eligible_def)
    then obtain l' where "(l', r') \<in> set df0" by auto
    with m_max setS have "roc_auc_key (l', r') \<le> roc_auc_key m" by simp
    with v' v(1) show "v' \<le> v" by (simp add: roc_auc_key_def)
  qed
  from r_in v best res show ?thesis by blast
qed

text \<open>
  C1. Let the runs of the experiment have distinct identifiers, let one of them have a
  metric below 1, and let each of the eleven hyperparameters be logged by a run with a
  metric below 1. Then \<open>get_best_model\<close> returns the metric \<open>v\<close> and the hyperparameters
  of one run \<open>r\<close> of the experiment: \<open>v\<close> is the metric of \<open>r\<close>, it is below 1, no
  metric below 1 of any run exceeds it, and the frame returned has the single row of \<open>r\<close>
  with its eleven hyperparameters. Runs with a metric of 1 or more, or with no metric,
  play no part. This holds whatever order the sort leaves equal values in.
\<close>

theorem get_best_model_max:
  assumes "distinct (map run_id (runs st))"
      and "\<exists>r \<in> set (runs st). eligible r"
      and "\<forall>k \<in> set best_params_keys.
             \<exists>r \<in> set (runs st). eligible r \<and> k \<in> fst ` set (params r)"
  shows "\<exists>r v l. r \<in> set (runs st) \<and> valid_roc_auc r = Some v \<and> v < 1 \<and>
           (\<forall>r' \<in> set (runs st). \<forall>v'. valid_roc_auc r' = Some v' \<and> v' < 1 \<longrightarrow> v' \<le> v) \<and>
           fst (get_best_model lib st) =
             Inr (Some v, \<lparr>index = [l],
                           data = map (\<lambda>k. (''params.'' @ k, [map_of (params r) k]))
                                    best_params_keys\<rparr>)"
  using assms by (rule get_best_model_selects)

text \<open>
  The theorem at the example session: of the metrics 0.81, 0.95, 1.0 and 0.62 the run
  with 0.95 is chosen.
\<close>

lemma example_runs:
  "distinct (map run_id (runs example_mlflow))"
  "\<exists>r \<in> set (runs example_mlflow). eligible r"
  "\<forall>k \<in> set best_params_keys.
     \<exists>r \<in> set (runs example_mlflow). eligible r \<and> k \<in> fst ` set (params r)"
  by (simp_all add: example_mlflow_def eligible_def valid_roc_auc_def past_run_def
      best_params_keys_def hyperparameters_def)

theorem get_best_model_max_example:
  "(\<exists>r v l. r \<in> set (runs example_mlflow) \<and> valid_roc_auc r = Some v \<and> v < 1 \<and>
      (\<forall>r' \<in> set (runs example_mlflow). \<forall>v'. valid_roc_auc r' = Some v' \<and> v' < 1 \<longrightarrow> v' \<le> v) \<and>
      fst (get_best_model example_py example_mlflow) =
        Inr (Some v, \<lparr>index = [l],
                      data = map (\<lambda>k. (''params.'' @ k, [map_of (params r) k]))
                               best_params_keys\<rparr>)) \<and>
   fst (get_best_model example_py example_mlflow) =
     Inr (Some (95 / 100),
          \<lparr>index = [1],
           data = [(''params.class_weight'', [Some ''balanced'']),
                   (''params.discretizer'', [Some ''EqualFrequencyDiscretiser()'']),
                   (''params.warm_start'', [Some ''True'']),
                   (''params.imputer'', [Some ''MeanMedianImputer()'']),
                   (''params.solver'', [Some ''lbfgs'']),
                   (''params.scaler'', [Some ''StandardScaler()'']),
                   (''params.max_iter'', [Some ''100'']),
                   (''params.fit_intercept'', [Some ''False'']),
                   (''params.tol'', [Some ''0.0001'']),
                   (''params.multi_class'', [Some ''auto'']),
                   (''params.C'', [Some ''1.0''])]\<rparr>)"
proof
  show "\<exists>r v l. r \<in> set (runs example_mlflow) \<and> valid_roc_auc r = Some v \<and> v < 1 \<and>
      (\<forall>r' \<in> set (runs example_mlflow). \<forall>v'. valid_roc_auc r' = Some v' \<and> v' < 1 \<longrightarrow> v' \<le> v) \<and>
      fst (get_best_model example_py example_mlflow) =
        Inr (Some v, \<lparr>index = [l],
                      data = map (\<lambda>k. (''params.'' @ k, [map_of (params r) k]))
                               best_params_keys\<rparr>)"
    by (rule get_best_model_max) (rule example_runs)+
next
  show "fst (get_best_model example_py example_mlflow) =
     Inr (Some (95 / 100),
          \<lparr>index = [1],
           data = [(''params.class_weight'', [Some ''balanced'']),
                   (''params.discretizer'', [Some ''EqualFrequencyDiscretiser()'']),
                   (''params.warm_start'', [Some ''True'']),
                   (''params.imputer'', [Some ''MeanMedianImputer()'']),
                   (''params.solver'', [Some ''lbfgs'']),
                   (''params.scaler'', [Some ''StandardScaler()'']),
                   (''params.max_iter'', [Some ''100'']),
                   (''params.fit_intercept'', [Some ''False'']),
                   (''params.tol'', [Some ''0.0001'']),
                   (''params.multi_class'', [Some ''auto'']),
                   (''params.C'', [Some ''1.0''])]\<rparr>)"
    by code_simp
qed

subsection \<open>No eligible run\<close>

lemma search_runs_no_eligible:
  assumes "\<forall>r \<in> set (runs st). \<not> eligible r"
  shows "fst (search_runs st) = \<lparr>metric_columns = [], param_columns = [], rows = []\<rparr>"
proof -
  from assms have "filter eligible (runs st) = []" by (simp add: filter_empty_conv)
  then show ?thesis by (simp add: search_runs_def Let_def)
qed

text \<open>
  C2, as the specification states it, fails: in a session whose only run has the metric
  1.0, no run is eligible, and \<open>get_best_model\<close> raises \<open>KeyError\<close>, not
  \<open>NoEligibleRunError\<close>.
\<close>

theorem get_best_model_signals_KeyError:
  "filter eligible (runs sentinel_only) = [] \<and>
   fst (get_best_model example_py sentinel_only) = Inl (KeyError ''metrics.valid_roc_auc'') \<and>
   fst (get_best_model example_py sentinel_only) \<noteq> Inl NoEligibleRunError"
  by code_simp

text \<open>
  C2, amended. Whenever no run of the experiment has a metric below 1, \<open>get_best_model\<close>
  returns no value: the frame of the search has no column for the metric, and sorting by
  it raises \<open>KeyError\<close>, which nothing in \<open>get_best_model\<close> catches.
\<close>

theorem get_best_model_no_eligible:
  assumes "\<forall>r \<in> set (runs st). \<not> eligible r"
  shows "fst (get_best_model lib st) = Inl (KeyError ''metrics.valid_roc_auc'')"
proof -
  let ?st = "record_call (Info ''Obtendo o melhor modelo do MLFlow'') st"
  from assms have "\<forall>r \<in> set (runs ?st). \<not> eligible r" by (simp add: record_call_def)
  from search_runs_no_eligible [OF this]
  show ?thesis
    by (simp add: get_best_model_def sort_values_def then_do_def case_prod_beta)
qed

theorem get_best_model_no_eligible_example:
  "fst (get_best_model example_py sentinel_only) = Inl (KeyError ''metrics.valid_roc_auc'')"
proof -
  have "\<forall>r \<in> set (runs sentinel_only). \<not> eligible r" by code_simp
  from get_best_model_no_eligible [OF this] show ?thesis .
qed

subsection \<open>Selecting twice\<close>







text \<open>Whatever order the sort leaves equal values in, the two orders of retrieval give
  different results; and both give the metric 0.95.\<close>

lemma tied_runs_metric:
  "map_sum id fst (fst (get_best_model example_py tied_runs)) = Inr (Some (95 / 100))"
  "map_sum id fst (fst (get_best_model example_py tied_runs_swapped)) = Inr (Some (95 / 100))"
  by code_simp+

subsection \<open>What a successful \<open>run\<close> has done\<close>

lemma record_call_fields:
  "journal (record_call c s) = journal s @ [c]"
  "runs (record_call c s) = runs s"
  "active_run_stack (record_call c s) = active_run_stack s"
  "model_versions (record_call c s) = model_versions s"
  "aliases (record_call c s) = aliases s"
  "store (record_call c s) = store s"
  by (simp_all add: record_call_def)

lemma update_run_fields:
  "journal (update_run i f s) = journal s"
  "runs (update_run i f s) = map (\<lambda>r. if run_id r = i then f r else r) (runs s)"
  "active_run_stack (update_run i f s) = active_run_stack s"
  "model_versions (update_run i f s) = model_versions s"
  "aliases (update_run i f s) = aliases s"
  "store (update_run i f s) = store s"
  by (simp_all add: update_run_def)

lemma create_run_fields:
  "fst (create_run n s) = new_run_id (runs s)"
  "journal (snd (create_run n s)) = journal s @ [StartRun (new_run_id (runs s)) n]"
  "active_run_stack (snd (create_run n s)) = new_run_id (runs s) # active_run_stack s"
  "model_versions (snd (create_run n s)) = model_versions s"
  "aliases (snd (create_run n s)) = aliases s"
  "store (snd (create_run n s)) = store s"
  "runs (snd (create_run n s)) =
     \<lparr>run_id = new_run_id (runs s), run_name = n, status = RUNNING, metrics = [], params = [],
      tags = [], models = []\<rparr> # runs s"
  by (simp_all add: create_run_def Let_def record_call_fields)

lemma get_best_model_state:
  "snd (get_best_model lib st) =
     record_call (SearchRuns ''metrics.valid_roc_auc < 1'')
       (record_call (Info ''Obtendo o melhor modelo do MLFlow'') st)"
  by (simp add: get_best_model_def search_runs_def Let_def)

lemma with_final_model_success:
  assumes "with_final_model lib locals s = (Inr model, s')"
  shows "active_run_stack s = [] \<and> LogisticRegression lib locals = Inr model \<and>
         s' = end_run FINISHED
                (set_tag ''model_name'' (model_name (local_self locals))
                   (snd (create_run ''final_model'' s)))"
  using assms
  by (auto simp: with_final_model_def start_run_def Let_def split: list.splits sum.splits prod.splits)

lemma final_model_block_fields:
  fixes n :: string
  assumes "active_run_stack s = []"
  defines "s' \<equiv> end_run FINISHED (set_tag ''model_name'' n (snd (create_run ''final_model'' s)))"
  shows "journal s' = journal s @ [StartRun (new_run_id (runs s)) ''final_model'',
                                   SetTag (new_run_id (runs s)) ''model_name'' n,
                                   EndRun (new_run_id (runs s)) FINISHED]"
    and "active_run_stack s' = []"
    and "model_versions s' = model_versions s"
    and "aliases s' = aliases s"
    and "store s' = store s"
  using assms(1)
  by (simp_all add: s'_def end_run_def set_tag_def get_or_start_run_def create_run_fields
      record_call_fields update_run_fields)

lemma final_model_block_run:
  fixes n :: string
  assumes "active_run_stack s = []"
  shows "new_run_id (runs s) \<in>
           run_id ` set (runs (end_run FINISHED (set_tag ''model_name'' n (snd (create_run ''final_model'' s)))))"
  using assms
  by (simp add: end_run_def set_tag_def get_or_start_run_def create_run_fields
      record_call_fields update_run_fields)

lemma fit_and_evaluate_success:
  assumes "fit_and_evaluate lib self pipe s = (Inr (fp, v), s')"
  shows "\<exists>preds. fit lib pipe (dados_X self) (dados_y self) = None \<and>
           fp = \<lparr>steps = pipe, fit_X = dados_X self, fit_y = dados_y self\<rparr> \<and>
           then_do (predict_log_proba lib fp (dados_X self)) column_1 = Inr preds \<and>
           evaluate_predictions lib fp (dados_y self) preds = Inr v \<and>
           s' = record_call (EvaluatePredictions (dados_y self) preds) (record_call (Fit pipe) s)"
  using assms
  by (auto simp: fit_and_evaluate_def Let_def split: option.splits sum.splits)

lemma log_and_register_success:
  assumes "log_and_register self fp v s = (Inr (), s')" and "active_run_stack s = []"
  defines "j \<equiv> new_run_id (runs s)"
  defines "n \<equiv> model_name self"
  defines "new \<equiv> \<lparr>mv_name = n, version = next_version n (model_versions s),
                    current_stage = StageNone, source_run = j\<rparr>"
  shows "journal s' = journal s @ [StartRun j [], LogMetric j ''valid_roc_auc'' v, LogModel j n,
           CreateModelVersion n (next_version n (model_versions s)), GetRegisteredModel n,
           SetRegisteredModelAlias n ''modelo'' (version (last (latest_versions (store s) n (model_versions s @ [new]))))]"
    and "model_versions s' = model_versions s @ [new]"
    and "aliases s' = ((n, ''modelo''),
           version (last (latest_versions (store s) n (model_versions s @ [new])))) # aliases s"
    and "store s' = store s"
  using assms(1,2)
  by (auto simp: log_and_register_def log_metric_def log_model_def get_or_start_run_def
      create_model_version_def get_registered_model_def set_registered_model_alias_def
      create_run_fields record_call_fields update_run_fields Let_def j_def n_def new_def
      case_prod_beta
      split: sum.splits if_splits)

lemma new_run_id_greater: "i \<in> run_id ` set rs \<Longrightarrow> i < new_run_id rs"
  by (induction rs) (auto simp: new_run_id_def)

lemma run_steps:
  assumes "fst (run lib self st) = Inr ()"
  shows "\<exists>bm df model pipe fp v s2 s3.
           get_best_model lib st = (Inr (bm, df), snd (get_best_model lib st)) \<and>
           with_final_model lib
             \<lparr>local_self = self, local_metric = bm, local_df_best_params = df, local_model = None\<rparr>
             (record_call (Info (''Iniciando o treinamento do modelo: '' @ model_name self))
                (snd (get_best_model lib st))) = (Inr model, s2) \<and>
           Pipeline lib
             \<lparr>local_self = self, local_metric = bm, local_df_best_params = df, local_model = None\<rparr>
             model = Inr pipe \<and>
           fit_and_evaluate lib self pipe s2 = (Inr (fp, v), s3) \<and>
           log_and_register self fp v s3 = (Inr (), snd (run lib self st))"
proof -
  obtain r0 s1 where g: "get_best_model lib st = (r0, s1)" by (cases "get_best_model lib st")
  show ?thesis
  proof (cases r0)
    case (Inl e)
    with g assms show ?thesis by (simp add: run_def)
  next
    case (Inr p)
    obtain bm df where p: "p = (bm, df)" by (cases p)
    let ?s = "record_call (Info (''Iniciando o treinamento do modelo: '' @ model_name self)) s1"
    let ?sc = "\<lparr>local_self = self, local_metric = bm, local_df_best_params = df, local_model = None\<rparr>"
    obtain r2 s2 where w: "with_final_model lib ?sc ?s = (r2, s2)"
      by (cases "with_final_model lib ?sc ?s")
    show ?thesis
    proof (cases r2)
      case (Inl e)
      with g Inr p w assms show ?thesis by (simp add: run_def)
    next
      case model: (Inr model)
      show ?thesis
      proof (cases "Pipeline lib ?sc model")
        case (Inl e)
        with g Inr p w model assms show ?thesis by (simp add: run_def)
      next
        case pipe: (Inr pipe)
        obtain r3 s3 where f: "fit_and_evaluate lib self pipe s2 = (r3, s3)"
          by (cases "fit_and_evaluate lib self pipe s2")
        show ?thesis
        proof (cases r3)
          case (Inl e)
          with g Inr p w model pipe f assms show ?thesis by (simp add: run_def)
        next
          case fv: (Inr q)
          obtain fp v where q: "q = (fp, v)" by (cases q)
          have "run lib self st = log_and_register self fp v s3"
            using g Inr p w model pipe f fv q by (simp add: run_def)
          moreover from this assms have "fst (log_and_register self fp v s3) = Inr ()" by simp
          ultimately have "log_and_register self fp v s3 = (Inr (), snd (run lib self st))"
            by (metis prod.collapse)
          with g Inr p w model pipe f fv q show ?thesis by auto
        qed
      qed
    qed
  qed
qed

lemma run_success:
  assumes ok: "fst (run lib self st) = Inr ()"
  shows "\<exists>bm df model pipe preds v i j a.
           active_run_stack st = [] \<and>
           fst (get_best_model lib st) = Inr (bm, df) \<and>
           LogisticRegression lib
             \<lparr>local_self = self, local_metric = bm, local_df_best_params = df, local_model = None\<rparr>
             = Inr model \<and>
           Pipeline lib
             \<lparr>local_self = self, local_metric = bm, local_df_best_params = df, local_model = None\<rparr>
             model = Inr pipe \<and>
           fit lib pipe (dados_X self) (dados_y self) = None \<and>
           then_do (predict_log_proba lib \<lparr>steps = pipe, fit_X = dados_X self, fit_y = dados_y self\<rparr>
                      (dados_X self)) column_1 = Inr preds \<and>
           evaluate_predictions lib \<lparr>steps = pipe, fit_X = dados_X self, fit_y = dados_y self\<rparr>
             (dados_y self) preds = Inr v \<and>
           i < j \<and>
           a = version (last (latest_versions (store st) (model_name self)
                 (model_versions st @
                  [\<lparr>mv_name = model_name self,
                    version = next_version (model_name self) (model_versions st),
                    current_stage = StageNone, source_run = j\<rparr>]))) \<and>
           journal (snd (run lib self st)) = journal st @
             [Info ''Obtendo o melhor modelo do MLFlow'',
              SearchRuns ''metrics.valid_roc_auc < 1'',
              Info (''Iniciando o treinamento do modelo: '' @ model_name self),
              StartRun i ''final_model'',
              SetTag i ''model_name'' (model_name self),
              EndRun i FINISHED,
              Fit pipe,
              EvaluatePredictions (dados_y self) preds,
              StartRun j [],
              LogMetric j ''valid_roc_auc'' v,
              LogModel j (model_name self),
              CreateModelVersion (model_name self) (next_version (model_name self) (model_versions st)),
              GetRegisteredModel (model_name self),
              SetRegisteredModelAlias (model_name self) ''modelo'' a] \<and>
           model_versions (snd (run lib self st)) = model_versions st @
             [\<lparr>mv_name = model_name self,
               version = next_version (model_name self) (model_versions st),
               current_stage = StageNone, source_run = j\<rparr>] \<and>
           aliases (snd (run lib self st)) = ((model_name self, ''modelo''), a) # aliases st \<and>
           store (snd (run lib self st)) = store st"
proof -
  from run_steps [OF ok] obtain bm df model pipe fp v s2 s3 where
    g: "get_best_model lib st = (Inr (bm, df), snd (get_best_model lib st))" and
    w: "with_final_model lib
          \<lparr>local_self = self, local_metric = bm, local_df_best_params = df, local_model = None\<rparr>
          (record_call (Info (''Iniciando o treinamento do modelo: '' @ model_name self))
             (snd (get_best_model lib st))) = (Inr model, s2)" and
    p: "Pipeline lib
          \<lparr>local_self = self, local_metric = bm, local_df_best_params = df, local_model = None\<rparr>
          model = Inr pipe" and
    f: "fit_and_evaluate lib self pipe s2 = (Inr (fp, v), s3)" and
    l: "log_and_register self fp v s3 = (Inr (), snd (run lib self st))"
    by blast
  define s where "s = record_call (Info (''Iniciando o treinamento do modelo: '' @ model_name self))
             (snd (get_best_model lib st))"
  have s: "journal s = journal st @ [Info ''Obtendo o melhor modelo do MLFlow'',
              SearchRuns ''metrics.valid_roc_auc < 1'',
              Info (''Iniciando o treinamento do modelo: '' @ model_name self)]"
    "runs s = runs st" "active_run_stack s = active_run_stack st"
    "model_versions s = model_versions st" "aliases s = aliases st" "store s = store st"
    by (simp_all add: s_def get_best_model_state record_call_fields)
  from with_final_model_success [OF w [folded s_def]]
  have a: "active_run_stack s = []" and m: "LogisticRegression lib
          \<lparr>local_self = self, local_metric = bm, local_df_best_params = df, local_model = None\<rparr>
          = Inr model"
    and s2: "s2 = end_run FINISHED (set_tag ''model_name'' (model_name self)
                    (snd (create_run ''final_model'' s)))" by simp_all
  define i where "i = new_run_id (runs s)"
  note b = final_model_block_fields [OF a, of "model_name self", folded s2 i_def]
  have i_in: "i \<in> run_id ` set (runs s2)"
    using final_model_block_run [OF a, of "model_name self"] by (simp add: s2 i_def)
  from fit_and_evaluate_success [OF f] obtain preds where
    ft: "fit lib pipe (dados_X self) (dados_y self) = None" and
    fp: "fp = \<lparr>steps = pipe, fit_X = dados_X self, fit_y = dados_y self\<rparr>" and
    pr: "then_do (predict_log_proba lib fp (dados_X self)) column_1 = Inr preds" and
    ev: "evaluate_predictions lib fp (dados_y self) preds = Inr v" and
    s3: "s3 = record_call (EvaluatePredictions (dados_y self) preds) (record_call (Fit pipe) s2)"
    by blast
  have s3f: "journal s3 = journal s2 @ [Fit pipe, EvaluatePredictions (dados_y self) preds]"
    "runs s3 = runs s2" "active_run_stack s3 = []" "model_versions s3 = model_versions st"
    "aliases s3 = aliases st" "store s3 = store st"
    by (simp_all add: s3 record_call_fields b s)
  define j where "j = new_run_id (runs s3)"
  have ij: "i < j" using new_run_id_greater [OF i_in] by (simp add: j_def s3f)
  note c = log_and_register_success [OF l s3f(3), folded j_def]
  from g have g': "fst (get_best_model lib st) = Inr (bm, df)" by (metis fst_conv)
  have a': "active_run_stack st = []" using a by (simp add: s)
  note facts = c [unfolded s3f b s] pr [unfolded fp] ev [unfolded fp]
  show ?thesis
    using g' a' m p ft ij facts by (intro exI conjI) (assumption | rule refl | simp)+
qed

subsection \<open>The alias\<close>

text \<open>
  C4 fails in the example session, where version 2 of the model is in the stage
  Production. \<open>run\<close> succeeds and registers version 3 from its run 6; the registry then
  lists version 3 (no stage) and version 2 (Production), and the alias is set to the
  last entry of that list. On the database store this is version 2, the older one; so
  it is on a file store that lists Production last. A file store that lists the versions
  without stage last gives version 3: which version receives the alias depends on the
  order of the list, not on what \<open>run\<close> has registered.
\<close>

theorem run_alias_is_older_version:
  "fst (run example_py example_trainer example_mlflow) = Inr () \<and>
   last (model_versions (snd (run example_py example_trainer example_mlflow))) =
     \<lparr>mv_name = ''prob_loan_model'', version = 3, current_stage = StageNone, source_run = 6\<rparr> \<and>
   alias_of (snd (run example_py example_trainer example_mlflow))
     ''prob_loan_model'' ''modelo'' = Some 2 \<and>
   alias_of (snd (run example_py example_trainer
                    (example_mlflow\<lparr>store := FileStore production_last\<rparr>)))
     ''prob_loan_model'' ''modelo'' = Some 2 \<and>
   alias_of (snd (run example_py example_trainer
                    (example_mlflow\<lparr>store := FileStore none_last\<rparr>)))
     ''prob_loan_model'' ''modelo'' = Some 3"
  by code_simp

text \<open>In general the alias of a successful \<open>run\<close> is the version of the last entry of
  \<open>latest_versions\<close>, taken after the new version has been registered.\<close>

lemma run_alias_last_entry:
  assumes "fst (run lib self st) = Inr ()"
  shows "\<exists>j. alias_of (snd (run lib self st)) (model_name self) ''modelo'' =
           Some (version (last (latest_versions (store st) (model_name self)
                   (model_versions st @
                    [\<lparr>mv_name = model_name self,
                      version = next_version (model_name self) (model_versions st),
                      current_stage = StageNone, source_run = j\<rparr>]))))"
proof -
  from run_success [OF assms] obtain j a where
    "a = version (last (latest_versions (store st) (model_name self)
                 (model_versions st @
                  [\<lparr>mv_name = model_name self,
                    version = next_version (model_name self) (model_versions st),
                    current_stage = StageNone, source_run = j\<rparr>])))"
    "aliases (snd (run lib self st)) = ((model_name self, ''modelo''), a) # aliases st"
    by blast
  then show ?thesis by (auto simp: alias_of_def)
qed

subsection \<open>The run that receives the metric\<close>

text \<open>
  C8. The calls of \<open>run\<close> in the example session, in order, and the two runs it creates.
  The run \<open>final_model\<close> (5) is started, tagged and ended before the pipeline is fitted;
  the metric is logged after that, to a run (6) that MLflow starts for the purpose and
  that is still running when \<open>run\<close> returns. The metric is logged before the model is
  logged and registered.
\<close>

theorem run_example_journal:
  "journal (snd (run example_py example_trainer example_mlflow)) =
 [Info ''Obtendo o melhor modelo do MLFlow'',
  SearchRuns ''metrics.valid_roc_auc < 1'',
  Info ''Iniciando o treinamento do modelo: prob_loan_model'',
  StartRun 5 ''final_model'', SetTag 5 ''model_name'' ''prob_loan_model'',
  EndRun 5 FINISHED,
  Fit [(''imputer'', PyObject ''MeanMedianImputer'' []),
       (''discretizer'', PyObject ''EqualFrequencyDiscretiser'' []),
       (''scaler'', PyObject ''StandardScaler'' []),
       (''model'',
        PyObject ''LogisticRegression''
         [(''warm_start'', PyBool True), (''multi_class'', PyStr ''auto''),
          (''class_weight'', PyStr ''balanced''), (''max_iter'', PyInt 100),
          (''C'', PyFloat 1), (''solver'', PyStr ''lbfgs''),
          (''tol'', PyFloat (1 / 10000))])],
  EvaluatePredictions
   \<lparr>index = [0, 1], data = [(''default'', [IntCell 0, IntCell 1])]\<rparr>
   [- (2877 / 10000), - (2877 / 10000)],
  StartRun 6 [], LogMetric 6 ''valid_roc_auc'' (9 / 10),
  LogModel 6 ''prob_loan_model'', CreateModelVersion ''prob_loan_model'' 3,
  GetRegisteredModel ''prob_loan_model'',
  SetRegisteredModelAlias ''prob_loan_model'' ''modelo'' 2] \<and>
  map (\<lambda>r. (run_id r, run_name r, status r, metrics r, tags r))
      (take 2 (runs (snd (run example_py example_trainer example_mlflow)))) =
  [(6, [], RUNNING, [(''valid_roc_auc'', 9 / 10)], []),
   (5, ''final_model'', FINISHED, [], [(''model_name'', ''prob_loan_model'')])]"
  by code_simp

subsection \<open>What is evaluated\<close>

text \<open>
  C5, as the specification states it, fails. In the example session the fitted pipeline
  predicts the probability 3/4 for the positive class of both rows; the values passed to
  \<open>evaluate_predictions\<close> are not these but the second column of \<open>predict_log_proba\<close>,
  -0.2877 twice.
\<close>

theorem run_does_not_evaluate_proba:
  "evaluated (journal (snd (run example_py example_trainer example_mlflow))) =
     [(dados_y example_trainer, [- (2877 / 10000), - (2877 / 10000)])] \<and>
   then_do (predict_proba example_py
              (sk_model (hd (models (hd (runs (snd (run example_py example_trainer example_mlflow)))))))
              (dados_X example_trainer)) column_1 = Inr [3 / 4, 3 / 4]"
  by code_simp

text \<open>
  C5, amended. In every successful \<open>run\<close> the pipeline is fitted on \<open>dados_X\<close> and
  \<open>dados_y\<close>; the one evaluation of the call receives the true labels \<open>dados_y\<close> and the
  second column of \<open>predict_log_proba\<close> of the fitted pipeline on \<open>dados_X\<close> (the
  logarithms of the probabilities of the positive class); and the one metric logged by
  the call is the value of that evaluation, under the key \<open>valid_roc_auc\<close>.
\<close>

theorem run_evaluates_log_proba:
  assumes "fst (run lib self st) = Inr ()"
  shows "\<exists>pipe P v j.
           fit lib pipe (dados_X self) (dados_y self) = None \<and>
           predict_log_proba lib \<lparr>steps = pipe, fit_X = dados_X self, fit_y = dados_y self\<rparr>
             (dados_X self) = Inr P \<and>
           evaluated (drop (length (journal st)) (journal (snd (run lib self st))))
             = [(dados_y self, map (\<lambda>r. r ! 1) P)] \<and>
           evaluate_predictions lib \<lparr>steps = pipe, fit_X = dados_X self, fit_y = dados_y self\<rparr>
             (dados_y self) (map (\<lambda>r. r ! 1) P) = Inr v \<and>
           logged_metrics (drop (length (journal st)) (journal (snd (run lib self st))))
             = [(j, ''valid_roc_auc'', v)]"
proof -
  from run_success [OF assms] obtain pipe preds v i j a where
    ft: "fit lib pipe (dados_X self) (dados_y self) = None" and
    pr: "then_do (predict_log_proba lib
                    \<lparr>steps = pipe, fit_X = dados_X self, fit_y = dados_y self\<rparr>
                    (dados_X self)) column_1 = Inr preds" and
    ev: "evaluate_predictions lib \<lparr>steps = pipe, fit_X = dados_X self, fit_y = dados_y self\<rparr>
           (dados_y self) preds = Inr v" and
    jn: "journal (snd (run lib self st)) = journal st @
           [Info ''Obtendo o melhor modelo do MLFlow'',
            SearchRuns ''metrics.valid_roc_auc < 1'',
            Info (''Iniciando o treinamento do modelo: '' @ model_name self),
            StartRun i ''final_model'',
            SetTag i ''model_name'' (model_name self),
            EndRun i FINISHED,
            Fit pipe,
            EvaluatePredictions (dados_y self) preds,
            StartRun j [],
            LogMetric j ''valid_roc_auc'' v,
            LogModel j (model_name self),
            CreateModelVersion (model_name self)
              (next_version (model_name self) (model_versions st)),
            GetRegisteredModel (model_name self),
            SetRegisteredModelAlias (model_name self) ''modelo'' a]"
    by blast
  from pr obtain P where
    P: "predict_log_proba lib \<lparr>steps = pipe, fit_X = dados_X self, fit_y = dados_y self\<rparr>
          (dados_X self) = Inr P"
       "preds = map (\<lambda>r. r ! 1) P"
    by (auto simp: then_do_def column_1_def split: sum.splits if_splits)
  have e: "evaluated (drop (length (journal st)) (journal (snd (run lib self st))))
             = [(dados_y self, preds)]"
    by (simp add: jn)
  have l: "logged_metrics (drop (length (journal st)) (journal (snd (run lib self st))))
             = [(j, ''valid_roc_auc'', v)]"
    by (simp add: jn)
  show ?thesis
    using ft P(1) e [unfolded P(2)] ev [unfolded P(2)] l by blast
qed

theorem run_evaluates_log_proba_example:
  "\<exists>pipe P v j.
     fit example_py pipe (dados_X example_trainer) (dados_y example_trainer) = None \<and>
     predict_log_proba example_py
       \<lparr>steps = pipe, fit_X = dados_X example_trainer, fit_y = dados_y example_trainer\<rparr>
       (dados_X example_trainer) = Inr P \<and>
     evaluated (drop (length (journal example_mlflow))
                  (journal (snd (run example_py example_trainer example_mlflow))))
       = [(dados_y example_trainer, map (\<lambda>r. r ! 1) P)] \<and>
     evaluate_predictions example_py
       \<lparr>steps = pipe, fit_X = dados_X example_trainer, fit_y = dados_y example_trainer\<rparr>
       (dados_y example_trainer) (map (\<lambda>r. r ! 1) P) = Inr v \<and>
     logged_metrics (drop (length (journal example_mlflow))
                       (journal (snd (run example_py example_trainer example_mlflow))))
       = [(j, ''valid_roc_auc'', v)]"
proof (rule run_evaluates_log_proba)
  show "fst (run example_py example_trainer example_mlflow) = Inr ()" by code_simp
qed

subsection \<open>The recorded \<open>fit_intercept\<close>\<close>











end
